theory Spec2Isabelle
  imports Main "HOL-Library.Word"
begin

section \<open>Torrent file-system transaction types\<close>

text \<open>
  The package \<open>types\<close> of the torrent file system: a transaction carries a byte payload
  whose first two bytes, read big-endian, select the operation.
\<close>

type_synonym byte = "8 word"

text \<open>\<open>common.Address\<close> is an array of 20 bytes; its zero value is all zero.\<close>

type_synonym address = "byte list"

definition AddressLength :: nat where
  "AddressLength = 20"

definition zero_address :: address where
  "zero_address = replicate AddressLength 0"

text \<open>
  \<open>Address.Bytes\<close> returns the 20 bytes; \<open>Address.SetBytes b\<close> keeps the last 20 bytes of a
  longer \<open>b\<close> and copies \<open>b\<close> into the tail of the array. Both belong to the \<open>common\<close>
  package, which the transaction code imports.
\<close>

definition Bytes :: "address \<Rightarrow> byte list" where
  "Bytes a = a"

definition SetBytes :: "address \<Rightarrow> byte list \<Rightarrow> address" where
  "SetBytes a b =
     (let b' = (if length b > AddressLength then drop (length b - AddressLength) b else b)
      in take (AddressLength - length b') a @ b')"

definition opCommon :: int where "opCommon = 0"
definition opCreateModel :: int where "opCreateModel = 1"
definition opCreateInput :: int where "opCreateInput = 2"
definition opNoInput :: int where "opNoInput = 3"

text \<open>
  The structs \<open>TxReceipt\<close> and \<open>Transaction\<close>. A field that is a pointer the source
  allows to be nil is an option.
\<close>

record TxReceipt =
  ContractAddr :: "address option"
  TxHash :: "byte list option"

record Transaction =
  Price :: int
  Amount :: int
  GasLimit :: "64 word"
  Payload :: "byte list"
  From :: "address option"
  Recipient :: "address option"
  Hash :: "byte list option"
  Receipt :: "TxReceipt option"

text \<open>
  \<open>Transaction.Op\<close>: the operation code. \<open>int(t.Payload[0]) << 8\<close> is a shift of a value
  below 256 in a machine \<open>int\<close>, so nothing overflows.
\<close>

definition Op :: "Transaction \<Rightarrow> int" where
  "Op t =
     (if length (Payload t) \<ge> 2 then
        (let op = push_bit 8 (uint (Payload t ! 0)) + uint (Payload t ! 1)
         in if op > 3 then opNoInput else op)
      else if length (Payload t) = 0 then opNoInput
      else opCommon)"

text \<open>\<open>Transaction.Data\<close>: the payload after the two operation bytes.\<close>

definition Data :: "Transaction \<Rightarrow> byte list" where
  "Data t = (if length (Payload t) \<ge> 2 then drop 2 (Payload t) else [])"

definition noPayload :: "Transaction \<Rightarrow> bool" where
  "noPayload t = (length (Payload t) = 0)"

text \<open>
  The metadata records \<open>InputMeta\<close> and \<open>ModelMeta\<close> of \<open>core/types\<close> are declared outside
  the transaction file; \<open>Parse\<close> reads four fields of either. The block number is a
  \<open>big.Int\<close> held by value, so its zero value is the number 0.
\<close>

record Meta =
  AuthorAddress :: address
  MetaURI :: string
  MetaRawSize :: "64 word"
  MetaBlockNum :: int

definition zero_Meta :: Meta where
  "zero_Meta = \<lparr>AuthorAddress = zero_address, MetaURI = [], MetaRawSize = 0, MetaBlockNum = 0\<rparr>"

text \<open>\<open>big.Int.Uint64\<close>: the low 64 bits of the absolute value.\<close>

definition Uint64 :: "int \<Rightarrow> 64 word" where
  "Uint64 n = word_of_int \<bar>n\<bar>"

record FileMeta =
  AuthorAddr :: address
  URI :: string
  RawSize :: "64 word"
  BlockNum :: "64 word"

text \<open>
  \<open>Transaction.Parse\<close>. \<open>rlp.Decode\<close> fills the metadata record from the data bytes and its
  error is dropped; the decoders are parameters \<open>decInput\<close> and \<open>decModel\<close>, taking the
  bytes and the record before decoding to the record after it. The author address is
  copied out of the record before the decoder runs. A nil result is \<open>None\<close>.
\<close>

definition Parse ::
  "(byte list \<Rightarrow> Meta \<Rightarrow> Meta) \<Rightarrow> (byte list \<Rightarrow> Meta \<Rightarrow> Meta) \<Rightarrow> Transaction \<Rightarrow> FileMeta option" where
  "Parse decInput decModel t =
     (if Op t = opCreateInput then
        (let meta = zero_Meta;
             AuthorAddress' = SetBytes zero_address (Bytes (AuthorAddress meta));
             meta' = decInput (Data t) meta
         in Some \<lparr>AuthorAddr = AuthorAddress', URI = MetaURI meta',
                  RawSize = MetaRawSize meta', BlockNum = Uint64 (MetaBlockNum meta')\<rparr>)
      else if Op t = opCreateModel then
        (let meta = zero_Meta;
             AuthorAddress' = SetBytes zero_address (Bytes (AuthorAddress meta));
             meta' = decModel (Data t) meta
         in Some \<lparr>AuthorAddr = AuthorAddress', URI = MetaURI meta',
                  RawSize = MetaRawSize meta', BlockNum = Uint64 (MetaBlockNum meta')\<rparr>)
      else None)"

section \<open>The downloader's test harness\<close>

text \<open>
  \<open>eth/downloader/downloader_test.go\<close>: the helpers that build hash chains and blocks
  for the downloader's tests. A \<open>common.Hash\<close> is an array of 32 bytes.
\<close>

type_synonym hash = "byte list"

definition knownHash :: hash where
  "knownHash = 1 # replicate 31 0"

definition unknownHash :: hash where
  "unknownHash = replicate 32 9"

text \<open>\<open>binary.BigEndian.PutUint64\<close>: the eight bytes of a 64-bit value, highest first.\<close>

definition PutUint64 :: "64 word \<Rightarrow> byte list" where
  "PutUint64 v = map (\<lambda>k. ucast (drop_bit (8 * (7 - k)) v)) [0 ..< 8]"

text \<open>
  \<open>createHashes\<close>: \<open>amount\<close> hashes, the \<open>i\<close>-th holding \<open>i + 2\<close> in its first eight bytes,
  followed by the known hash. The argument \<open>start\<close> is not used by the source.
\<close>

definition createHashes :: "nat \<Rightarrow> nat \<Rightarrow> hash list" where
  "createHashes start amount =
     map (\<lambda>i. PutUint64 (of_nat (i + 2)) @ replicate 24 0) [0 ..< amount] @ [knownHash]"

text \<open>
  A block as the tests see it: its number and the two header hashes the tests set; the
  methods \<open>Hash\<close> and \<open>ParentHash\<close> read them back.
\<close>

record block =
  Number :: int
  HeaderHash :: hash
  ParentHeaderHash :: hash

definition createBlock :: "int \<Rightarrow> hash \<Rightarrow> hash \<Rightarrow> block" where
  "createBlock i prevHash h = \<lparr>Number = i, HeaderHash = h, ParentHeaderHash = prevHash\<rparr>"

text \<open>
  The errors of the downloader: the three the tests compare against, and the spec's
  cancelled and no-such-peer outcomes.
\<close>

datatype error = errNoSyncActive | errPeersUnavailable | ErrInvalidChain | errCancelled | errUnknownPeer

section \<open>The block queue\<close>

text \<open>
  Modelled from the spec: the BlockQueue of the downloader, whose implementation is not
  among the repository's files (only its tests are). The state is the three pools of
  the spec's data model: \<open>hashPool\<close>, the hashes known but not yet fetched, oldest
  unresolved first; \<open>pendingPool\<close>, each outstanding hash with the time of its request;
  \<open>blockCache\<close>, each fetched hash with its block, in the order the blocks were cached.
\<close>

record queue =
  hashPool :: "hash list"
  pendingPool :: "(hash \<times> nat) list"
  blockCache :: "(hash \<times> block) list"

text \<open>Modelled from the spec: a hash is known when it is in any of the three pools.\<close>

definition known :: "queue \<Rightarrow> hash \<Rightarrow> bool" where
  "known q h = (h \<in> set (hashPool q) \<or> h \<in> set (map fst (pendingPool q))
                \<or> h \<in> set (map fst (blockCache q)))"

text \<open>
  Modelled from the spec: \<open>insertHashes\<close> appends the hashes not already known in any of
  the three pools, in the order given, and returns how many it inserted.
\<close>

fun insertHashes :: "hash list \<Rightarrow> queue \<Rightarrow> nat \<times> queue" where
  "insertHashes [] q = (0, q)"
| "insertHashes (h # hs) q =
     (if known q h then insertHashes hs q
      else (let (n, q') = insertHashes hs (q\<lparr>hashPool := hashPool q @ [h]\<rparr>)
            in (Suc n, q')))"

text \<open>
  Modelled from the spec: \<open>deliver\<close> moves each delivered block whose hash is pending
  into the cache and out of \<open>pendingPool\<close>; any other block is dropped. It returns the
  number of hashes resolved.
\<close>

fun deliver :: "string \<Rightarrow> block list \<Rightarrow> queue \<Rightarrow> nat \<times> queue" where
  "deliver peerID [] q = (0, q)"
| "deliver peerID (b # bs) q =
     (if HeaderHash b \<in> set (map fst (pendingPool q)) then
        (let (n, q') = deliver peerID bs
                 (q\<lparr>pendingPool := filter (\<lambda>(h, t). h \<noteq> HeaderHash b) (pendingPool q),
                    blockCache := blockCache q @ [(HeaderHash b, b)]\<rparr>)
         in (Suc n, q'))
      else deliver peerID bs q)"

text \<open>Modelled from the spec: \<open>size\<close> reports the outstanding hashes and the cached blocks.\<close>

definition size_queue :: "queue \<Rightarrow> nat \<times> nat" where
  "size_queue q = (length (hashPool q) + length (pendingPool q), length (blockCache q))"

text \<open>Modelled from the spec: \<open>reset\<close> clears all three pools.\<close>

definition reset :: "queue \<Rightarrow> queue" where
  "reset q = q\<lparr>hashPool := [], pendingPool := [], blockCache := []\<rparr>"

section \<open>The downloader\<close>

text \<open>Modelled from the spec: the states of the downloader's state machine.\<close>

datatype sync_status = Idle | FetchingHashes | FetchingBlocks | Done | Cancelled | Failed

text \<open>
  Modelled from the spec: the state of the Downloader, whose implementation is not
  among the repository's files. \<open>hashRounds\<close> counts the hash deliveries accepted in the
  round.
\<close>

record downloader =
  activePeerID :: string
  syncStatus :: sync_status
  cachedHeadHash :: hash
  dqueue :: queue
  hashRounds :: nat

text \<open>
  Modelled from the spec: \<open>DeliverHashes\<close> fails with the no-active-sync error while the
  downloader is idle and otherwise routes the hashes to the queue; it accepts at most
  \<open>maxHashRounds\<close> deliveries in a round and fails the sync with the invalid-chain error
  beyond that.
\<close>

definition DeliverHashes :: "nat \<Rightarrow> string \<Rightarrow> hash list \<Rightarrow> downloader \<Rightarrow> error option \<times> downloader" where
  "DeliverHashes maxHashRounds peerID hashes d =
     (if syncStatus d = Idle then (Some errNoSyncActive, d)
      else if hashRounds d \<ge> maxHashRounds then (Some ErrInvalidChain, d\<lparr>syncStatus := Failed\<rparr>)
      else (None, d\<lparr>dqueue := snd (insertHashes hashes (dqueue d)),
                     hashRounds := Suc (hashRounds d)\<rparr>))"

text \<open>
  Modelled from the spec: \<open>DeliverBlocks\<close> fails with the no-active-sync error while the
  downloader is idle and otherwise routes the blocks to the queue.
\<close>

definition DeliverBlocks :: "string \<Rightarrow> block list \<Rightarrow> downloader \<Rightarrow> error option \<times> downloader" where
  "DeliverBlocks peerID blocks d =
     (if syncStatus d = Idle then (Some errNoSyncActive, d)
      else (None, d\<lparr>dqueue := snd (deliver peerID blocks (dqueue d))\<rparr>))"

text \<open>
  Modelled from the spec: \<open>Cancel\<close> moves any state but idle to cancelled and resets the
  queue; it returns whether there was a round to cancel.
\<close>

definition Cancel :: "downloader \<Rightarrow> bool \<times> downloader" where
  "Cancel d =
     (if syncStatus d = Idle then (False, d)
      else (True, d\<lparr>syncStatus := Cancelled, dqueue := reset (dqueue d)\<rparr>))"

section \<open>Properties of the transaction code\<close>

lemma SetBytes_zero: "SetBytes zero_address (Bytes zero_address) = zero_address"
  by (simp add: SetBytes_def Bytes_def zero_address_def AddressLength_def)

lemma op_value_nonneg: "0 \<le> push_bit 8 (uint (a :: byte)) + uint (b :: byte)"
  by (simp add: push_bit_eq_mult)

text \<open>
  C9. \<open>Op\<close> always returns one of 0, 1, 2, 3. With two or more payload bytes it is the
  big-endian value of the first two bytes when that is at most 3 and \<open>opNoInput\<close> (3)
  otherwise; with an empty payload it is \<open>opNoInput\<close>; with exactly one byte it is
  \<open>opCommon\<close> (0).
\<close>

theorem Op_cases:
  "Op t \<in> {0, 1, 2, 3}
   \<and> (length (Payload t) \<ge> 2 \<longrightarrow>
        Op t = (let v = push_bit 8 (uint (Payload t ! 0)) + uint (Payload t ! 1)
                in if v \<le> 3 then v else opNoInput))
   \<and> (Payload t = [] \<longrightarrow> Op t = opNoInput)
   \<and> (length (Payload t) = 1 \<longrightarrow> Op t = opCommon)"
proof -
  let ?v = "push_bit 8 (uint (Payload t ! 0)) + uint (Payload t ! 1)"
  have nonneg: "0 \<le> ?v" by (rule op_value_nonneg)
  have range: "Op t \<in> {0, 1, 2, 3}"
  proof (cases "length (Payload t) \<ge> 2")
    case True
    show ?thesis
    proof (cases "?v > 3")
      case True
      with \<open>length (Payload t) \<ge> 2\<close> show ?thesis
        by (simp add: Op_def Let_def opNoInput_def)
    next
      case False
      with nonneg have "?v = 0 \<or> ?v = 1 \<or> ?v = 2 \<or> ?v = 3" by arith
      moreover from False \<open>length (Payload t) \<ge> 2\<close> have "Op t = ?v"
        by (simp add: Op_def Let_def)
      ultimately show ?thesis by auto
    qed
  next
    case False
    then show ?thesis by (simp add: Op_def opNoInput_def opCommon_def)
  qed
  have two: "length (Payload t) \<ge> 2 \<longrightarrow>
        Op t = (let v = ?v in if v \<le> 3 then v else opNoInput)"
    by (simp add: Op_def Let_def not_less)
  have none: "Payload t = [] \<longrightarrow> Op t = opNoInput"
    by (simp add: Op_def)
  have one: "length (Payload t) = 1 \<longrightarrow> Op t = opCommon"
    by (simp add: Op_def)
  from range two none one show ?thesis by blast
qed

theorem Op_cases_witness:
  "Op \<lparr>Price = 0, Amount = 0, GasLimit = 0, Payload = [0, 2, 7], From = None, Recipient = None, Hash = None, Receipt = None\<rparr> = 2
   \<and> Op \<lparr>Price = 0, Amount = 0, GasLimit = 0, Payload = [1, 0], From = None, Recipient = None, Hash = None, Receipt = None\<rparr> = 3
   \<and> Op \<lparr>Price = 0, Amount = 0, GasLimit = 0, Payload = [], From = None, Recipient = None, Hash = None, Receipt = None\<rparr> = 3
   \<and> Op \<lparr>Price = 0, Amount = 0, GasLimit = 0, Payload = [2], From = None, Recipient = None, Hash = None, Receipt = None\<rparr> = 0"
  using Op_cases [of "\<lparr>Price = 0, Amount = 0, GasLimit = 0, Payload = [0, 2, 7], From = None, Recipient = None, Hash = None, Receipt = None\<rparr>"]
    Op_cases [of "\<lparr>Price = 0, Amount = 0, GasLimit = 0, Payload = [1, 0], From = None, Recipient = None, Hash = None, Receipt = None\<rparr>"]
    Op_cases [of "\<lparr>Price = 0, Amount = 0, GasLimit = 0, Payload = [], From = None, Recipient = None, Hash = None, Receipt = None\<rparr>"]
    Op_cases [of "\<lparr>Price = 0, Amount = 0, GasLimit = 0, Payload = [2], From = None, Recipient = None, Hash = None, Receipt = None\<rparr>"]
  by (simp add: opNoInput_def opCommon_def)

text \<open>
  C10. When \<open>Op\<close> is \<open>opCreateModel\<close> or \<open>opCreateInput\<close>, \<open>Parse\<close> returns a file record
  whose author address is the all-zero address, whatever the decoder writes into the
  metadata record; for every other operation code it returns nil.
\<close>

theorem Parse_author_zero:
  "(Op t = opCreateModel \<or> Op t = opCreateInput \<longrightarrow>
      (\<exists>fm. Parse decInput decModel t = Some fm \<and> AuthorAddr fm = replicate 20 0))
   \<and> (Op t \<noteq> opCreateModel \<and> Op t \<noteq> opCreateInput \<longrightarrow> Parse decInput decModel t = None)"
proof -
  have z: "SetBytes zero_address (Bytes (AuthorAddress zero_Meta)) = replicate 20 0"
    using SetBytes_zero by (simp add: zero_Meta_def zero_address_def AddressLength_def)
  show ?thesis
    by (simp add: Parse_def Let_def z opCreateInput_def opCreateModel_def)
qed

theorem Parse_author_zero_witness:
  "(\<exists>fm. Parse (\<lambda>bs m. m\<lparr>AuthorAddress := replicate 20 255, MetaURI := ''magnet''\<rparr>) (\<lambda>bs m. m)
        \<lparr>Price = 0, Amount = 0, GasLimit = 0, Payload = [0, 2, 9], From = None, Recipient = None, Hash = None, Receipt = None\<rparr> = Some fm
      \<and> AuthorAddr fm = replicate 20 0)
   \<and> Parse (\<lambda>bs m. m\<lparr>AuthorAddress := replicate 20 255, MetaURI := ''magnet''\<rparr>) (\<lambda>bs m. m)
        \<lparr>Price = 0, Amount = 0, GasLimit = 0, Payload = [5], From = None, Recipient = None, Hash = None, Receipt = None\<rparr> = None"
  using Parse_author_zero
      [of "\<lparr>Price = 0, Amount = 0, GasLimit = 0, Payload = [0, 2, 9], From = None, Recipient = None, Hash = None, Receipt = None\<rparr>"
          "\<lambda>bs m. m\<lparr>AuthorAddress := replicate 20 255, MetaURI := ''magnet''\<rparr>" "\<lambda>bs m. m"]
    Parse_author_zero
      [of "\<lparr>Price = 0, Amount = 0, GasLimit = 0, Payload = [5], From = None, Recipient = None, Hash = None, Receipt = None\<rparr>"
          "\<lambda>bs m. m\<lparr>AuthorAddress := replicate 20 255, MetaURI := ''magnet''\<rparr>" "\<lambda>bs m. m"]
  by (simp add: Op_def opCommon_def opCreateInput_def opCreateModel_def opNoInput_def)

section \<open>Properties of the downloader\<close>

text \<open>
  C7. While the downloader is idle, \<open>DeliverHashes\<close> and \<open>DeliverBlocks\<close> return the
  no-active-sync error for every peer and every payload, and the state, with the
  three pools of the queue, is what it was.
\<close>

theorem deliver_while_idle:
  "syncStatus d = Idle \<Longrightarrow>
     DeliverHashes maxHashRounds peerID hashes d = (Some errNoSyncActive, d)
     \<and> DeliverBlocks peerID blocks d = (Some errNoSyncActive, d)
     \<and> dqueue (snd (DeliverHashes maxHashRounds peerID hashes d)) = dqueue d
     \<and> dqueue (snd (DeliverBlocks peerID blocks d)) = dqueue d"
  by (simp add: DeliverHashes_def DeliverBlocks_def)

theorem deliver_while_idle_witness:
  "DeliverHashes 3 ''bad peer 001'' (createHashes 0 2)
      \<lparr>activePeerID = [], syncStatus = Idle, cachedHeadHash = knownHash,
        dqueue = \<lparr>hashPool = [unknownHash], pendingPool = [], blockCache = []\<rparr>, hashRounds = 0\<rparr>
    = (Some errNoSyncActive,
       \<lparr>activePeerID = [], syncStatus = Idle, cachedHeadHash = knownHash,
        dqueue = \<lparr>hashPool = [unknownHash], pendingPool = [], blockCache = []\<rparr>, hashRounds = 0\<rparr>)
   \<and> DeliverBlocks ''bad peer 001'' [createBlock 2 knownHash unknownHash]
      \<lparr>activePeerID = [], syncStatus = Idle, cachedHeadHash = knownHash,
        dqueue = \<lparr>hashPool = [unknownHash], pendingPool = [], blockCache = []\<rparr>, hashRounds = 0\<rparr>
    = (Some errNoSyncActive,
       \<lparr>activePeerID = [], syncStatus = Idle, cachedHeadHash = knownHash,
        dqueue = \<lparr>hashPool = [unknownHash], pendingPool = [], blockCache = []\<rparr>, hashRounds = 0\<rparr>)"
  using deliver_while_idle [of
      "\<lparr>activePeerID = [], syncStatus = Idle, cachedHeadHash = knownHash,
        dqueue = \<lparr>hashPool = [unknownHash], pendingPool = [], blockCache = []\<rparr>, hashRounds = 0\<rparr>"
      3 "''bad peer 001''" "createHashes 0 2" "[createBlock 2 knownHash unknownHash]"]
  by simp

text \<open>
  C8. When \<open>Cancel\<close> returns true, the queue is reset: \<open>size\<close> reports no outstanding
  hash and no cached block.
\<close>

theorem cancel_resets_queue:
  "fst (Cancel d) \<Longrightarrow> size_queue (dqueue (snd (Cancel d))) = (0, 0)"
  by (simp add: Cancel_def reset_def size_queue_def split: if_splits)

theorem cancel_resets_queue_witness:
  "fst (Cancel \<lparr>activePeerID = ''peer1'', syncStatus = FetchingBlocks, cachedHeadHash = knownHash,
        dqueue = \<lparr>hashPool = [createHashes 0 3 ! 2],
                  pendingPool = [(createHashes 0 3 ! 1, 7)],
                  blockCache = [(createHashes 0 3 ! 0, createBlock 4 knownHash (createHashes 0 3 ! 0))]\<rparr>,
        hashRounds = 1\<rparr>)
   \<and> size_queue (dqueue (snd (Cancel \<lparr>activePeerID = ''peer1'', syncStatus = FetchingBlocks,
        cachedHeadHash = knownHash,
        dqueue = \<lparr>hashPool = [createHashes 0 3 ! 2],
                  pendingPool = [(createHashes 0 3 ! 1, 7)],
                  blockCache = [(createHashes 0 3 ! 0, createBlock 4 knownHash (createHashes 0 3 ! 0))]\<rparr>,
        hashRounds = 1\<rparr>))) = (0, 0)"
proof -
  let ?d = "\<lparr>activePeerID = ''peer1'', syncStatus = FetchingBlocks, cachedHeadHash = knownHash,
        dqueue = \<lparr>hashPool = [createHashes 0 3 ! 2],
                  pendingPool = [(createHashes 0 3 ! 1, 7)],
                  blockCache = [(createHashes 0 3 ! 0, createBlock 4 knownHash (createHashes 0 3 ! 0))]\<rparr>,
        hashRounds = 1\<rparr>"
  have a: "fst (Cancel ?d)" by (simp add: Cancel_def)
  from a cancel_resets_queue [OF a] show ?thesis by simp
qed

end
